theory Spec2Isabelle
  imports Main "HOL-Library.Word"
begin

section \<open>Shared data: identifiers, errors, the sdk package\<close>

type_synonym int64 = "64 word"

type_synonym bytes = "8 word list"

text \<open>
  \<open>sdk.Error\<close>: a structured error carrying an HTTP status and a message.
\<close>

record Error =
  Status :: int
  Message :: string

text \<open>
  A Go \<open>error\<close> value. The handler tells apart, by a type assertion, an error that is
  a \<open>*sdk.Error\<close> from any other error, of which it only reads the text
  \<open>err.Error()\<close>.
\<close>

datatype go_error = SdkError Error | PlainError string

text \<open>
  The declarations of package \<open>sdk\<close> that the two files use lie outside them, so the
  functions below take them as a parameter: the three error constants, the constructor
  \<open>NewError\<close>, \<open>WithStack\<close> (which attaches a stack trace to an error) and the
  path predicate \<open>PathIsAbs\<close>.
\<close>

record sdk_pkg =
  ErrNotFound :: Error
  ErrWrongRequest :: Error
  ErrUnknownError :: Error
  NewError :: "Error \<Rightarrow> go_error \<Rightarrow> Error"
  WithStack :: "go_error \<Rightarrow> go_error"
  PathIsAbs :: "string \<Rightarrow> bool"

text \<open>\<open>net/http\<close>: \<open>StatusBadRequest\<close> and \<open>StatusNotFound\<close>.\<close>

definition StatusBadRequest :: int where
  "StatusBadRequest = 400"

definition StatusNotFound :: int where
  "StatusNotFound = 404"

section \<open>Package integration: the record store\<close>

text \<open>
  Modelled from the spec: the types \<open>sdk.IntegrationModel\<close> and
  \<open>sdk.ProjectIntegration\<close> are declared outside the files at hand. The spec's data
  model gives an integration model an identity and the names of the fields it marks
  sensitive, and an integration record a numeric id, an owning project id, a name, a
  key/value configuration, a reference to a model id and the attached model.
\<close>

record IntegrationModel =
  ModelID :: int64
  sensitive :: "string list"

record ProjectIntegration =
  ID :: int64
  ProjectID :: int64
  IntegrationName :: string
  IntegrationModelID :: int64
  Model :: IntegrationModel
  Config :: "string \<rightharpoonup> string"

text \<open>
  \<open>dbProjectIntegration\<close> embeds \<open>sdk.ProjectIntegration\<close> and carries the stored
  signature: a record extension, so that \<open>pp.ID\<close>, \<open>pp.Model\<close> and \<open>pp.Blur()\<close>
  are those of the embedded struct and \<open>pp.ProjectIntegration\<close> is the truncation.
\<close>

record dbProjectIntegration = ProjectIntegration +
  Signature :: bytes

text \<open>The zero value of \<open>sdk.ProjectIntegration\<close>, as \<open>make\<close> fills a slice with.\<close>

definition zero_IntegrationModel :: IntegrationModel where
  "zero_IntegrationModel = \<lparr>ModelID = 0, sensitive = []\<rparr>"

definition zero_ProjectIntegration :: ProjectIntegration where
  "zero_ProjectIntegration =
     \<lparr>ID = 0, ProjectID = 0, IntegrationName = [], IntegrationModelID = 0,
      Model = zero_IntegrationModel, Config = Map.empty\<rparr>"

text \<open>
  Modelled from the spec: the value a redacted field holds. The spec says a sensitive
  field is blanked.
\<close>

definition blanked :: string where
  "blanked = []"

text \<open>
  Modelled from the spec: \<open>Blur\<close>, the redaction method of \<open>sdk.ProjectIntegration\<close>,
  is declared outside the files at hand. By the spec, every field the attached model
  marks sensitive is blanked in the in-memory record; the other fields are kept.
\<close>

definition Blur :: "'a ProjectIntegration_scheme \<Rightarrow> 'a ProjectIntegration_scheme" where
  "Blur pf =
     pf\<lparr>Config :=
          (\<lambda>k. if k \<in> set (sensitive (Model pf))
               then map_option (\<lambda>v. blanked) (Config pf k)
               else Config pf k)\<rparr>"

text \<open>
  The four queries the package builds with \<open>gorpmapping.NewQuery(...).Args(...)\<close>:
  by project key and name, by id, by project id, and by workflow id (a join against the
  association table).
\<close>

datatype Query =
    ByProjectKeyAndName string string
  | ByID int64
  | ByProjectID int64
  | ByWorkflowID int64

text \<open>\<open>gorpmapping.GetOptions\<close>: the one option the package passes.\<close>

datatype GetOptionFunc = WithDecryption

text \<open>
  The collaborators of a load, outside the files at hand and taken as a parameter:
  \<open>gorpmapping.Get\<close> (an error, or not found, or the row), \<open>gorpmapping.GetAll\<close>,
  \<open>gorpmapping.CheckSignature\<close> (an error, or the verdict) and the package's own
  \<open>LoadModel\<close> (the model resolver). All of them only read the database.
\<close>

record store =
  Get :: "Query \<Rightarrow> GetOptionFunc list \<Rightarrow> go_error + dbProjectIntegration option"
  GetAll :: "Query \<Rightarrow> GetOptionFunc list \<Rightarrow> go_error + dbProjectIntegration list"
  CheckSignature :: "dbProjectIntegration \<Rightarrow> bytes \<Rightarrow> go_error + bool"
  LoadModel :: "int64 \<Rightarrow> bool \<Rightarrow> go_error + IntegrationModel"

text \<open>\<open>load\<close>: one record matching the query.\<close>

definition load ::
  "sdk_pkg \<Rightarrow> store \<Rightarrow> Query \<Rightarrow> bool \<Rightarrow> go_error + ProjectIntegration" where
  "load sdk db query clearPassword =
     (case Get db query [WithDecryption] of
        Inl err \<Rightarrow> Inl err
      | Inr None \<Rightarrow> Inl (WithStack sdk (SdkError (ErrNotFound sdk)))
      | Inr (Some pp) \<Rightarrow>
          (case CheckSignature db pp (Signature pp) of
             Inl err \<Rightarrow> Inl err
           | Inr isValid \<Rightarrow>
               if \<not> isValid then Inl (WithStack sdk (SdkError (ErrNotFound sdk)))
               else
                 (case LoadModel db (IntegrationModelID pp) clearPassword of
                    Inl err \<Rightarrow> Inl err
                  | Inr imodel \<Rightarrow>
                      let pp1 = pp\<lparr>Model := imodel\<rparr>;
                          pp2 = (if \<not> clearPassword then Blur pp1 else pp1)
                      in Inr (ProjectIntegration.truncate pp2))))"

text \<open>
  The exported single-record loads wrap the error of \<open>load\<close> with \<open>sdk.WithStack\<close>,
  which leaves a nil error nil.
\<close>

definition LoadProjectIntegrationByName ::
  "sdk_pkg \<Rightarrow> store \<Rightarrow> string \<Rightarrow> string \<Rightarrow> bool \<Rightarrow> go_error + ProjectIntegration" where
  "LoadProjectIntegrationByName sdk db key name clearPassword =
     (case load sdk db (ByProjectKeyAndName key name) clearPassword of
        Inl err \<Rightarrow> Inl (WithStack sdk err)
      | Inr pp \<Rightarrow> Inr pp)"

definition LoadProjectIntegrationByID ::
  "sdk_pkg \<Rightarrow> store \<Rightarrow> int64 \<Rightarrow> bool \<Rightarrow> go_error + ProjectIntegration" where
  "LoadProjectIntegrationByID sdk db ident clearPassword =
     (case load sdk db (ByID ident) clearPassword of
        Inl err \<Rightarrow> Inl (WithStack sdk err)
      | Inr pp \<Rightarrow> Inr pp)"

text \<open>
  The loop of \<open>loadAll\<close>: \<open>i\<close> is the index of the row at the head of the rows still to
  visit, \<open>integrations\<close> the slice being filled by index. A row whose signature is
  invalid is passed over by \<open>continue\<close>, which leaves \<open>integrations[i]\<close> as it was.
  An index beyond the slice would panic in Go; the loop never has one, since the slice
  is made with the length of the rows.
\<close>

fun loadAll_loop ::
  "store \<Rightarrow> bool \<Rightarrow> nat \<Rightarrow> dbProjectIntegration list \<Rightarrow> ProjectIntegration list
     \<Rightarrow> go_error + ProjectIntegration list" where
  "loadAll_loop db clearPassword i [] integrations = Inr integrations"
| "loadAll_loop db clearPassword i (p # ps) integrations =
     (case CheckSignature db p (Signature p) of
        Inl err \<Rightarrow> Inl err
      | Inr isValid \<Rightarrow>
          if \<not> isValid then loadAll_loop db clearPassword (Suc i) ps integrations
          else
            (case LoadModel db (IntegrationModelID p) clearPassword of
               Inl err \<Rightarrow> Inl err
             | Inr imodel \<Rightarrow>
                 let p1 = p\<lparr>Model := imodel\<rparr>;
                     integrations1 = integrations[i := ProjectIntegration.truncate p1];
                     integrations2 =
                       (if \<not> clearPassword
                        then integrations1[i := Blur (integrations1 ! i)]
                        else integrations1)
                 in loadAll_loop db clearPassword (Suc i) ps integrations2))"

definition loadAll ::
  "store \<Rightarrow> Query \<Rightarrow> bool \<Rightarrow> go_error + ProjectIntegration list" where
  "loadAll db query clearPassword =
     (case GetAll db query [WithDecryption] of
        Inl err \<Rightarrow> Inl err
      | Inr pp \<Rightarrow>
          loadAll_loop db clearPassword 0 pp
            (replicate (length pp) zero_ProjectIntegration))"

definition LoadIntegrationsByProjectID ::
  "sdk_pkg \<Rightarrow> store \<Rightarrow> int64 \<Rightarrow> bool \<Rightarrow> go_error + ProjectIntegration list" where
  "LoadIntegrationsByProjectID sdk db ident clearPassword =
     (case loadAll db (ByProjectID ident) clearPassword of
        Inl err \<Rightarrow> Inl (WithStack sdk err)
      | Inr integrations \<Rightarrow> Inr integrations)"

definition LoadIntegrationsByWorkflowID ::
  "sdk_pkg \<Rightarrow> store \<Rightarrow> int64 \<Rightarrow> bool \<Rightarrow> go_error + ProjectIntegration list" where
  "LoadIntegrationsByWorkflowID sdk db ident clearPassword =
     (case loadAll db (ByWorkflowID ident) clearPassword of
        Inl err \<Rightarrow> Inl (WithStack sdk err)
      | Inr integrations \<Rightarrow> Inr integrations)"

section \<open>The association between workflows and integrations\<close>

text \<open>
  Modelled from the spec: the table \<open>workflow_project_integration\<close> and the SQL
  executor are outside the files at hand. By the spec's data model a link is a pure
  association, a pair (workflow id, integration id), and the pair is the table's
  conflict target: an insert \<open>ON CONFLICT DO NOTHING\<close> is insert-if-absent, a delete
  of a pair or of a workflow's pairs removes every matching row. An executor may also
  fail as a whole (the storage call's own error), which the field \<open>exec_failure\<close>
  holds.
\<close>

record SqlExecutor =
  workflow_project_integration :: "(int64 \<times> int64) list"
  exec_failure :: "go_error option"

datatype statement =
    InsertLinkOnConflictDoNothing int64 int64
  | DeleteLink int64 int64
  | DeleteLinksOfWorkflow int64

fun run_statement :: "statement \<Rightarrow> (int64 \<times> int64) list \<Rightarrow> (int64 \<times> int64) list" where
  "run_statement (InsertLinkOnConflictDoNothing w p) rows =
     (if (w, p) \<in> set rows then rows else rows @ [(w, p)])"
| "run_statement (DeleteLink w p) rows = filter (\<lambda>r. r \<noteq> (w, p)) rows"
| "run_statement (DeleteLinksOfWorkflow w) rows = filter (\<lambda>r. fst r \<noteq> w) rows"

definition Exec :: "SqlExecutor \<Rightarrow> statement \<Rightarrow> go_error + SqlExecutor" where
  "Exec db st =
     (case exec_failure db of
        Some err \<Rightarrow> Inl err
      | None \<Rightarrow>
          Inr (db\<lparr>workflow_project_integration :=
                    run_statement st (workflow_project_integration db)\<rparr>))"

text \<open>
  \<open>AddOnWorkflow\<close>, \<open>RemoveFromWorkflow\<close> and \<open>DeleteFromWorkflow\<close>: one statement
  each, the executor's error wrapped by \<open>sdk.WithStack\<close>. The result is the error or
  the database after the statement.
\<close>

definition AddOnWorkflow ::
  "sdk_pkg \<Rightarrow> SqlExecutor \<Rightarrow> int64 \<Rightarrow> int64 \<Rightarrow> go_error + SqlExecutor" where
  "AddOnWorkflow sdk db workflowID projectIntegrationID =
     (case Exec db (InsertLinkOnConflictDoNothing workflowID projectIntegrationID) of
        Inl err \<Rightarrow> Inl (WithStack sdk err)
      | Inr db1 \<Rightarrow> Inr db1)"

definition RemoveFromWorkflow ::
  "sdk_pkg \<Rightarrow> SqlExecutor \<Rightarrow> int64 \<Rightarrow> int64 \<Rightarrow> go_error + SqlExecutor" where
  "RemoveFromWorkflow sdk db workflowID projectIntegrationID =
     (case Exec db (DeleteLink workflowID projectIntegrationID) of
        Inl err \<Rightarrow> Inl (WithStack sdk err)
      | Inr db1 \<Rightarrow> Inr db1)"

definition DeleteFromWorkflow ::
  "sdk_pkg \<Rightarrow> SqlExecutor \<Rightarrow> int64 \<Rightarrow> go_error + SqlExecutor" where
  "DeleteFromWorkflow sdk db workflowID =
     (case Exec db (DeleteLinksOfWorkflow workflowID) of
        Inl err \<Rightarrow> Inl (WithStack sdk err)
      | Inr db1 \<Rightarrow> Inr db1)"

section \<open>Package internal: the key installation handler of the worker\<close>

text \<open>
  \<open>sdk.Variable\<close>, a named secret of the job, and \<open>workerruntime.KeyResponse\<close>, of
  which the handler reads the field \<open>PKey\<close>.
\<close>

record Variable =
  Name :: string
  Value :: string

record KeyResponse =
  PKey :: string

text \<open>
  The install capability of \<open>workerruntime.Runtime\<close>, implemented outside the file at
  hand: each method acts on the worker's state (its filesystem), of type \<open>'s\<close>, and
  returns a response or an error. \<open>CurrentWorker\<close> implements the interface and holds
  the secrets of the current job, a slice that may be nil.
\<close>

record 's Runtime =
  InstallKey :: "Variable \<Rightarrow> 's \<Rightarrow> (go_error + KeyResponse) \<times> 's"
  InstallKeyTo :: "Variable \<Rightarrow> string \<Rightarrow> 's \<Rightarrow> (go_error + KeyResponse) \<times> 's"

record 's CurrentWorker = "'s Runtime" +
  currentJob_secrets :: "Variable list option"

text \<open>\<open>keyInstall\<close>: the choice of the destination.\<close>

definition keyInstall ::
  "sdk_pkg \<Rightarrow> ('s, 'a) Runtime_scheme \<Rightarrow> string \<Rightarrow> Variable \<Rightarrow> 's
     \<Rightarrow> (go_error + KeyResponse) \<times> 's" where
  "keyInstall sdk wk filename key s =
     (if filename = [] then InstallKey wk key s
      else if \<not> PathIsAbs sdk filename
        then (Inl (PlainError ''unsupported relative path''), s)
      else InstallKeyTo wk key filename s)"

text \<open>
  The request as the handler reads it: the route variable \<open>key\<close> and the outcome of
  \<open>ioutil.ReadAll(r.Body)\<close>. What the handler writes: \<open>writeJSON(w, data, status)\<close>.
\<close>

record request =
  vars_key :: string
  ReadAll_Body :: "go_error + string"

datatype json_data = ErrorData Error | KeyData KeyResponse

record response =
  status_code :: int
  data :: json_data

definition writeJSON :: "json_data \<Rightarrow> int \<Rightarrow> response" where
  "writeJSON d st = \<lparr>status_code = st, data = d\<rparr>"

text \<open>Reading a Go \<open>map[string]string\<close> at a key: the zero value when it is absent.\<close>

definition map_index :: "(string \<rightharpoonup> string) \<Rightarrow> string \<Rightarrow> string" where
  "map_index m k = (case m k of None \<Rightarrow> [] | Some v \<Rightarrow> v)"

text \<open>
  \<open>keyInstallHandler\<close>. \<open>Unmarshal\<close> is \<open>json.Unmarshal\<close> into the empty
  \<open>map[string]string\<close>: the text of its error, or the map. The handler returns what
  it wrote and the state of the worker after it.
\<close>

definition keyInstallHandler ::
  "sdk_pkg \<Rightarrow> (string \<Rightarrow> string + (string \<rightharpoonup> string)) \<Rightarrow> 's CurrentWorker \<Rightarrow> request \<Rightarrow> 's
     \<Rightarrow> response \<times> 's" where
  "keyInstallHandler sdk Unmarshal wk r s =
     (let keyName = vars_key r in
      case ReadAll_Body r of
        Inl err \<Rightarrow>
          (let sdkerr = NewError sdk (ErrWrongRequest sdk) err
           in (writeJSON (ErrorData sdkerr) (Status sdkerr), s))
      | Inr body \<Rightarrow>
          (case (if length body > 0 then Unmarshal body else Inr Map.empty) of
             Inl msg \<Rightarrow>
               (let sdkerr = \<lparr>Status = Status (ErrWrongRequest sdk), Message = msg\<rparr>
                in (writeJSON (ErrorData sdkerr) (Status sdkerr), s))
           | Inr mapBody \<Rightarrow>
               (case currentJob_secrets wk of
                  None \<Rightarrow>
                    (let err = \<lparr>Status = StatusBadRequest,
                                Message = ''Cannot find any keys for your job''\<rparr>
                     in (writeJSON (ErrorData err) (Status err), s))
                | Some secrets \<Rightarrow>
                    (case find (\<lambda>k. Name k = ''cds.key.'' @ keyName @ ''.priv'') secrets of
                       None \<Rightarrow>
                         (let err = \<lparr>Status = StatusNotFound,
                                     Message = ''Key '' @ keyName @ '' not found''\<rparr>
                          in (writeJSON (ErrorData err) (Status err), s))
                     | Some key \<Rightarrow>
                         (let filename = map_index mapBody ''file'' in
                          case keyInstall sdk wk filename key s of
                            (Inl (SdkError sdkerr), s1) \<Rightarrow>
                              (writeJSON (ErrorData sdkerr) (Status sdkerr), s1)
                          | (Inl (PlainError msg), s1) \<Rightarrow>
                              (let err = \<lparr>Status = Status (ErrUnknownError sdk),
                                          Message = msg\<rparr>
                               in (writeJSON (ErrorData err) (Status err), s1))
                          | (Inr resp, s1) \<Rightarrow>
                              (writeJSON (KeyData resp) 200, s1))))))"

section \<open>Predicates of the properties\<close>


text \<open>
  The loop of \<open>loadAll\<close> gets past a row when its signature check returns a verdict
  and, if the verdict is valid, its model resolves.
\<close>

definition row_passes :: "store \<Rightarrow> bool \<Rightarrow> dbProjectIntegration \<Rightarrow> bool" where
  "row_passes db clearPassword p =
     (case CheckSignature db p (Signature p) of
        Inl err \<Rightarrow> False
      | Inr isValid \<Rightarrow>
          \<not> isValid \<or>
          (case LoadModel db (IntegrationModelID p) clearPassword of
             Inl err \<Rightarrow> False
           | Inr imodel \<Rightarrow> True))"

text \<open>
  The body of a request is parsed to \<open>mapBody\<close> when it was read and is empty (the map
  stays empty) or \<open>json.Unmarshal\<close> accepts it.
\<close>

definition parsed ::
  "(string \<Rightarrow> string + (string \<rightharpoonup> string)) \<Rightarrow> request \<Rightarrow> (string \<rightharpoonup> string) \<Rightarrow> bool" where
  "parsed Unmarshal r mapBody =
     (case ReadAll_Body r of
        Inl err \<Rightarrow> False
      | Inr body \<Rightarrow>
          (if length body > 0 then Unmarshal body = Inr mapBody
           else mapBody = Map.empty))"

section \<open>Concrete collaborators for the examples\<close>

text \<open>
  An instance of the \<open>sdk\<close> parameter: the three errors with the statuses
  \<open>http.StatusNotFound\<close>, \<open>http.StatusBadRequest\<close> and
  \<open>http.StatusInternalServerError\<close>, \<open>NewError\<close> keeping the status of the error
  it is given, \<open>WithStack\<close> keeping the error, and \<open>PathIsAbs\<close> as \<open>path.IsAbs\<close>
  of the Go library: the path starts with a slash.
\<close>

definition sample_sdk :: sdk_pkg where
  "sample_sdk =
     \<lparr>ErrNotFound = \<lparr>Status = 404, Message = ''resource not found''\<rparr>,
      ErrWrongRequest = \<lparr>Status = 400, Message = ''wrong request''\<rparr>,
      ErrUnknownError = \<lparr>Status = 500, Message = ''internal server error''\<rparr>,
      NewError = (\<lambda>e err. e),
      WithStack = (\<lambda>err. err),
      PathIsAbs = (\<lambda>p. case p of [] \<Rightarrow> False | c # cs \<Rightarrow> c = CHR ''/'')\<rparr>"

text \<open>
  Three stored rows: one intact, one whose signature does not verify, one intact whose
  model does not exist. The signature check of the sample store accepts the signature
  \<open>[1]\<close>; its only model, 10, marks the field \<open>password\<close> sensitive.
\<close>

definition sample_model :: IntegrationModel where
  "sample_model = \<lparr>ModelID = 10, sensitive = [''password'']\<rparr>"

definition row_intact :: dbProjectIntegration where
  "row_intact =
     \<lparr>ID = 1, ProjectID = 7, IntegrationName = ''kafka'', IntegrationModelID = 10,
      Model = zero_IntegrationModel,
      Config = [''url'' \<mapsto> ''broker:9092'', ''password'' \<mapsto> ''s3cret''],
      Signature = [1]\<rparr>"

definition row_tampered :: dbProjectIntegration where
  "row_tampered =
     \<lparr>ID = 2, ProjectID = 7, IntegrationName = ''swift'', IntegrationModelID = 10,
      Model = zero_IntegrationModel,
      Config = [''url'' \<mapsto> ''evil:1'', ''password'' \<mapsto> ''hunter2''],
      Signature = [0]\<rparr>"

definition row_orphan :: dbProjectIntegration where
  "row_orphan =
     \<lparr>ID = 3, ProjectID = 7, IntegrationName = ''rabbit'', IntegrationModelID = 99,
      Model = zero_IntegrationModel,
      Config = Map.empty,
      Signature = [1]\<rparr>"

definition sample_store :: store where
  "sample_store =
     \<lparr>Get = (\<lambda>q opts. case q of
                ByID i \<Rightarrow>
                  if i = 1 then Inr (Some row_intact)
                  else if i = 2 then Inr (Some row_tampered)
                  else if i = 3 then Inr (Some row_orphan)
                  else Inr None
              | _ \<Rightarrow> Inr None),
      GetAll = (\<lambda>q opts. case q of
                ByProjectID i \<Rightarrow> Inr [row_tampered, row_intact]
              | ByWorkflowID i \<Rightarrow> Inr [row_intact, row_orphan, row_tampered]
              | _ \<Rightarrow> Inr []),
      CheckSignature = (\<lambda>pp sig. Inr (sig = [1])),
      LoadModel = (\<lambda>i clear.
                if i = 10 then Inr sample_model
                else Inl (PlainError ''model not found''))\<rparr>"



text \<open>
  A worker whose state is the list of the calls its install capability received, in
  order, and whose installs succeed.
\<close>

datatype install_call = CalledInstallKey Variable | CalledInstallKeyTo Variable string

definition recording_worker :: "Variable list option \<Rightarrow> (install_call list) CurrentWorker" where
  "recording_worker secrets =
     \<lparr>InstallKey = (\<lambda>k s. (Inr \<lparr>PKey = ''/default/key''\<rparr>, s @ [CalledInstallKey k])),
      InstallKeyTo = (\<lambda>k f s. (Inr \<lparr>PKey = f\<rparr>, s @ [CalledInstallKeyTo k f])),
      currentJob_secrets = secrets\<rparr>"

definition deploy_key :: Variable where
  "deploy_key = \<lparr>Name = ''cds.key.deploy.priv'', Value = ''PRIVATE KEY''\<rparr>"

text \<open>
  Four request bodies: an object with a relative path, one with an absolute path, one
  with an empty path, and the truncated object \<open>{\<close>, which is not JSON.
\<close>

definition relative_body :: string where
  \<open>relative_body = ''{"file":"relative/path"}''\<close>

definition absolute_body :: string where
  \<open>absolute_body = ''{"file":"/abs/path"}''\<close>

definition empty_path_body :: string where
  \<open>empty_path_body = ''{"file":""}''\<close>


text \<open>
  What \<open>json.Unmarshal\<close> returns on the empty object and on the three objects above.
  Any other body is refused here, as the truncated object is by the library.
\<close>

definition sample_Unmarshal :: "string \<Rightarrow> string + (string \<rightharpoonup> string)" where
  "sample_Unmarshal body =
     (if body = ''{}'' then Inr Map.empty
      else if body = relative_body then Inr [''file'' \<mapsto> ''relative/path'']
      else if body = absolute_body then Inr [''file'' \<mapsto> ''/abs/path'']
      else if body = empty_path_body then Inr [''file'' \<mapsto> []]
      else Inl ''unexpected end of JSON input'')"

section \<open>Facts about redaction and the loop of loadAll\<close>




lemma loadAll_loop_length:
  "loadAll_loop db c i ps ints = Inr res \<Longrightarrow> length res = length ints"
  by (induction ps arbitrary: i ints)
     (auto simp: Let_def split: sum.splits if_splits)


lemma loadAll_loop_fails:
  "p \<in> set ps \<Longrightarrow> CheckSignature db p (Signature p) = Inr True
     \<Longrightarrow> LoadModel db (IntegrationModelID p) c = Inl e
     \<Longrightarrow> \<exists>e'. loadAll_loop db c i ps ints = Inl e'"
  by (induction ps arbitrary: i ints)
     (auto simp: Let_def split: sum.splits)

lemma loadAll_loop_fails_at_first:
  "\<forall>r\<in>set pre. row_passes db c r \<Longrightarrow> CheckSignature db p (Signature p) = Inr True
     \<Longrightarrow> LoadModel db (IntegrationModelID p) c = Inl e
     \<Longrightarrow> loadAll_loop db c i (pre @ p # post) ints = Inl e"
  by (induction pre arbitrary: i ints)
     (auto simp: Let_def row_passes_def split: sum.splits)

lemma loadAll_length:
  "GetAll db q [WithDecryption] = Inr pp \<Longrightarrow> loadAll db q c = Inr res
     \<Longrightarrow> length res = length pp"
  by (auto simp: loadAll_def dest: loadAll_loop_length)





text \<open>
  The exported single-record loads add one more \<open>sdk.WithStack\<close> to the error of
  \<open>load\<close>, the same one for a missing and for a tampered record.
\<close>

lemma exported_single_loads_NotFound:
  assumes "load sdk db (ByID ident) c = Inl (WithStack sdk (SdkError (ErrNotFound sdk)))"
    and "load sdk db (ByProjectKeyAndName key name) c
           = Inl (WithStack sdk (SdkError (ErrNotFound sdk)))"
  shows "LoadProjectIntegrationByID sdk db ident c
           = Inl (WithStack sdk (WithStack sdk (SdkError (ErrNotFound sdk))))"
    and "LoadProjectIntegrationByName sdk db key name c
           = Inl (WithStack sdk (WithStack sdk (SdkError (ErrNotFound sdk))))"
  using assms by (simp_all add: LoadProjectIntegrationByID_def LoadProjectIntegrationByName_def)

section \<open>The record store: claims\<close>

text \<open>
  Claim C1. A batch load over N fetched rows of which one fails signature verification
  should return N-1 records. The loop passes over the corrupted row but the result
  slice was made with the length of the fetched rows, so the row's slot stays in the
  result as a zero-valued record (the result always has the length of the fetched
  rows, \<open>loadAll_length\<close>): on the two rows of project 7, the first of them tampered,
  \<open>loadAll\<close> returns two records and no error, the first one the zero value.
\<close>

theorem loadAll_corrupted_row_keeps_its_slot:
  "GetAll sample_store (ByProjectID 7) [WithDecryption] = Inr [row_tampered, row_intact] \<and>
   CheckSignature sample_store row_tampered (Signature row_tampered) = Inr False \<and>
   CheckSignature sample_store row_intact (Signature row_intact) = Inr True \<and>
   loadAll sample_store (ByProjectID 7) True =
     Inr [zero_ProjectIntegration,
          ProjectIntegration.truncate (row_intact\<lparr>Model := sample_model\<rparr>)] \<and>
   LoadIntegrationsByProjectID sample_sdk sample_store 7 True =
     Inr [zero_ProjectIntegration,
          ProjectIntegration.truncate (row_intact\<lparr>Model := sample_model\<rparr>)]"
  by (simp add: loadAll_def LoadIntegrationsByProjectID_def sample_store_def row_intact_def
        row_tampered_def Let_def)

text \<open>
  Claim C2. A single-record load returns the same error, \<open>sdk.ErrNotFound\<close> with its
  stack, when the query finds no row and when the row is found and its signature is
  reported invalid: no separate error exists for a tampered record.
\<close>

theorem load_missing_and_tampered_both_NotFound:
  assumes "Get db1 q1 [WithDecryption] = Inr None"
    and "Get db2 q2 [WithDecryption] = Inr (Some pp)"
    and "CheckSignature db2 pp (Signature pp) = Inr False"
  shows "load sdk db1 q1 c1 = Inl (WithStack sdk (SdkError (ErrNotFound sdk))) \<and>
         load sdk db2 q2 c2 = Inl (WithStack sdk (SdkError (ErrNotFound sdk)))"
  using assms by (simp add: load_def)

theorem load_missing_and_tampered_both_NotFound_witness:
  "Get sample_store (ByID 4) [WithDecryption] = Inr None \<and>
   Get sample_store (ByID 2) [WithDecryption] = Inr (Some row_tampered) \<and>
   CheckSignature sample_store row_tampered (Signature row_tampered) = Inr False \<and>
   load sample_sdk sample_store (ByID 4) False = Inl (SdkError \<lparr>Status = 404, Message = ''resource not found''\<rparr>) \<and>
   load sample_sdk sample_store (ByID 2) True = Inl (SdkError \<lparr>Status = 404, Message = ''resource not found''\<rparr>)"
proof -
  have a: "Get sample_store (ByID 4) [WithDecryption] = Inr None"
    by (simp add: sample_store_def)
  have b: "Get sample_store (ByID 2) [WithDecryption] = Inr (Some row_tampered)"
    by (simp add: sample_store_def)
  have c: "CheckSignature sample_store row_tampered (Signature row_tampered) = Inr False"
    by (simp add: sample_store_def row_tampered_def)
  show ?thesis
    using a b c load_missing_and_tampered_both_NotFound [OF a b c, of sample_sdk False True]
    by (simp add: sample_sdk_def)
qed






text \<open>
  Claim C5. A failure to resolve the model of a record is the error of the enclosing
  load. For a single load it is returned as it is. For a batch, the failure at the
  first row that the loop does not get past is returned as it is, and whenever some
  fetched row with a valid signature has no resolvable model the batch returns an
  error and no records.
\<close>

theorem model_resolution_failure_is_fatal:
  "(Get db q [WithDecryption] = Inr (Some pp) \<and>
    CheckSignature db pp (Signature pp) = Inr True \<and>
    LoadModel db (IntegrationModelID pp) clearPassword = Inl e
      \<longrightarrow> load sdk db q clearPassword = Inl e) \<and>
   (GetAll db q [WithDecryption] = Inr (pre @ p # post) \<and>
    (\<forall>r\<in>set pre. row_passes db clearPassword r) \<and>
    CheckSignature db p (Signature p) = Inr True \<and>
    LoadModel db (IntegrationModelID p) clearPassword = Inl e
      \<longrightarrow> loadAll db q clearPassword = Inl e) \<and>
   (GetAll db q [WithDecryption] = Inr rows \<and> p \<in> set rows \<and>
    CheckSignature db p (Signature p) = Inr True \<and>
    LoadModel db (IntegrationModelID p) clearPassword = Inl e
      \<longrightarrow> (\<exists>e'. loadAll db q clearPassword = Inl e'))"
proof (intro conjI impI)
  assume "Get db q [WithDecryption] = Inr (Some pp) \<and>
    CheckSignature db pp (Signature pp) = Inr True \<and>
    LoadModel db (IntegrationModelID pp) clearPassword = Inl e"
  then show "load sdk db q clearPassword = Inl e"
    by (simp add: load_def)
next
  assume "GetAll db q [WithDecryption] = Inr (pre @ p # post) \<and>
    (\<forall>r\<in>set pre. row_passes db clearPassword r) \<and>
    CheckSignature db p (Signature p) = Inr True \<and>
    LoadModel db (IntegrationModelID p) clearPassword = Inl e"
  then show "loadAll db q clearPassword = Inl e"
    by (simp add: loadAll_def loadAll_loop_fails_at_first)
next
  assume "GetAll db q [WithDecryption] = Inr rows \<and> p \<in> set rows \<and>
    CheckSignature db p (Signature p) = Inr True \<and>
    LoadModel db (IntegrationModelID p) clearPassword = Inl e"
  then show "\<exists>e'. loadAll db q clearPassword = Inl e'"
    by (auto simp: loadAll_def intro: loadAll_loop_fails)
qed

theorem model_resolution_failure_is_fatal_witness:
  "load sample_sdk sample_store (ByID 3) True = Inl (PlainError ''model not found'') \<and>
   loadAll sample_store (ByWorkflowID 5) True = Inl (PlainError ''model not found'') \<and>
   row_passes sample_store True row_intact"
proof -
  have a: "Get sample_store (ByID 3) [WithDecryption] = Inr (Some row_orphan)"
    by (simp add: sample_store_def)
  have b: "CheckSignature sample_store row_orphan (Signature row_orphan) = Inr True"
    by (simp add: sample_store_def row_orphan_def)
  have c: "LoadModel sample_store (IntegrationModelID row_orphan) True
             = Inl (PlainError ''model not found'')"
    by (simp add: sample_store_def row_orphan_def)
  have d: "GetAll sample_store (ByWorkflowID 5) [WithDecryption]
             = Inr ([row_intact] @ row_orphan # [row_tampered])"
    by (simp add: sample_store_def)
  have f: "row_passes sample_store True row_intact"
    by (simp add: row_passes_def sample_store_def row_intact_def)
  then have g: "\<forall>r\<in>set [row_intact]. row_passes sample_store True r"
    by simp
  show ?thesis
    using model_resolution_failure_is_fatal
      [where db = sample_store and q = "ByID 3" and pp = row_orphan and clearPassword = True
         and e = "PlainError ''model not found''" and sdk = sample_sdk]
      model_resolution_failure_is_fatal
      [where db = sample_store and q = "ByWorkflowID 5" and pre = "[row_intact]"
         and p = row_orphan and post = "[row_tampered]" and clearPassword = True
         and e = "PlainError ''model not found''"]
      a b c d f g
    by simp
qed

section \<open>Facts about the handler and the association table\<close>


lemma parsed_body:
  "parsed Unmarshal r mapBody \<Longrightarrow>
     \<exists>body. ReadAll_Body r = Inr body \<and>
       (if length body > 0 then Unmarshal body else Inr Map.empty) = Inr mapBody"
  by (auto simp: parsed_def split: sum.splits if_splits)

lemma keyInstall_relative:
  "filename \<noteq> [] \<Longrightarrow> \<not> PathIsAbs sdk filename \<Longrightarrow>
     keyInstall sdk wk filename key s = (Inl (PlainError ''unsupported relative path''), s)"
  by (simp add: keyInstall_def)

lemma keyInstall_absolute:
  "filename \<noteq> [] \<Longrightarrow> PathIsAbs sdk filename \<Longrightarrow>
     keyInstall sdk wk filename key s = InstallKeyTo wk key filename s"
  by (simp add: keyInstall_def)

lemma handler_relative_state:
  assumes "parsed Unmarshal r mapBody"
    and "map_index mapBody ''file'' \<noteq> []"
    and "\<not> PathIsAbs sdk (map_index mapBody ''file'')"
  shows "snd (keyInstallHandler sdk Unmarshal wk r s) = s"
proof -
  from assms(1) obtain body where
    body: "ReadAll_Body r = Inr body"
      "(if length body > 0 then Unmarshal body else Inr Map.empty) = Inr mapBody"
    using parsed_body by blast
  show ?thesis
    using body assms(2,3)
    by (simp add: keyInstallHandler_def keyInstall_relative Let_def
          split: option.splits del: length_greater_0_conv)
qed

lemma handler_absolute_state:
  assumes "parsed Unmarshal r mapBody"
    and "currentJob_secrets wk = Some secrets"
    and "find (\<lambda>k. Name k = ''cds.key.'' @ vars_key r @ ''.priv'') secrets = Some key"
    and "map_index mapBody ''file'' \<noteq> []"
    and "PathIsAbs sdk (map_index mapBody ''file'')"
  shows "snd (keyInstallHandler sdk Unmarshal wk r s)
           = snd (InstallKeyTo wk key (map_index mapBody ''file'') s)"
proof -
  from assms(1) obtain body where
    body: "ReadAll_Body r = Inr body"
      "(if length body > 0 then Unmarshal body else Inr Map.empty) = Inr mapBody"
    using parsed_body by blast
  show ?thesis
    using body assms(2-5)
    by (simp add: keyInstallHandler_def keyInstall_absolute Let_def
          split: prod.splits sum.splits go_error.splits del: length_greater_0_conv)
qed

lemma run_insert_twice:
  "run_statement (InsertLinkOnConflictDoNothing w p)
     (run_statement (InsertLinkOnConflictDoNothing w p) rows)
   = run_statement (InsertLinkOnConflictDoNothing w p) rows"
  by simp

lemma count_list_distinct:
  "distinct rows \<Longrightarrow> count_list rows x = (if x \<in> set rows then 1 else 0)"
  by (induction rows) auto

lemma run_insert_count:
  "distinct rows \<Longrightarrow>
     count_list (run_statement (InsertLinkOnConflictDoNothing w p) rows) (w, p) = 1"
  by (simp add: count_list_distinct)

lemma run_insert_distinct:
  "distinct rows \<Longrightarrow> distinct (run_statement (InsertLinkOnConflictDoNothing w p) rows)"
  by simp

section \<open>The key installation handler: claims\<close>




text \<open>
  Claim C7. The claim gives status 400 to a relative destination path. \<open>keyInstall\<close>
  rejects it with a plain error, which the handler maps to the status of
  \<open>sdk.ErrUnknownError\<close>: with the sample \<open>sdk\<close>, whose unknown error has status 500,
  the request with the body of a relative path is answered 500.
\<close>

theorem relative_path_answered_with_unknown_error_status:
  "keyInstallHandler sample_sdk sample_Unmarshal (recording_worker (Some [deploy_key]))
      \<lparr>vars_key = ''deploy'', ReadAll_Body = Inr relative_body\<rparr> []
     = (\<lparr>status_code = 500,
         data = ErrorData \<lparr>Status = 500, Message = ''unsupported relative path''\<rparr>\<rparr>, [])"
  by (simp add: keyInstallHandler_def keyInstall_def sample_sdk_def sample_Unmarshal_def
        recording_worker_def deploy_key_def relative_body_def map_index_def writeJSON_def)

text \<open>
  Claim C7, as the code has it: for every request that reaches the installation (its
  body parsed, the secret set present, the key found) with a relative destination
  path, \<open>keyInstall\<close> returns the plain error \<open>unsupported relative path\<close> and the
  handler answers with that message and the status of \<open>sdk.ErrUnknownError\<close>, as for
  any error that is not a \<open>*sdk.Error\<close>; the worker's state is untouched.
\<close>

theorem relative_path_status_is_unknown_error:
  assumes "parsed Unmarshal r mapBody"
    and "currentJob_secrets wk = Some secrets"
    and "find (\<lambda>k. Name k = ''cds.key.'' @ vars_key r @ ''.priv'') secrets = Some key"
    and "map_index mapBody ''file'' \<noteq> []"
    and "\<not> PathIsAbs sdk (map_index mapBody ''file'')"
  shows "keyInstallHandler sdk Unmarshal wk r s
           = (\<lparr>status_code = Status (ErrUnknownError sdk),
               data = ErrorData \<lparr>Status = Status (ErrUnknownError sdk),
                                 Message = ''unsupported relative path''\<rparr>\<rparr>, s)"
proof -
  from assms(1) obtain body where
    body: "ReadAll_Body r = Inr body"
      "(if length body > 0 then Unmarshal body else Inr Map.empty) = Inr mapBody"
    using parsed_body by blast
  show ?thesis
    using body assms(2-5)
    by (simp add: keyInstallHandler_def keyInstall_def Let_def writeJSON_def
          del: length_greater_0_conv)
qed

theorem relative_path_status_is_unknown_error_witness:
  "keyInstallHandler (sample_sdk\<lparr>ErrUnknownError := \<lparr>Status = 503, Message = ''unknown''\<rparr>\<rparr>)
      sample_Unmarshal (recording_worker (Some [deploy_key]))
      \<lparr>vars_key = ''deploy'', ReadAll_Body = Inr relative_body\<rparr> []
     = (\<lparr>status_code = 503,
         data = ErrorData \<lparr>Status = 503, Message = ''unsupported relative path''\<rparr>\<rparr>, [])"
proof -
  have a: "parsed sample_Unmarshal \<lparr>vars_key = ''deploy'', ReadAll_Body = Inr relative_body\<rparr>
             [''file'' \<mapsto> ''relative/path'']"
    by (simp add: parsed_def sample_Unmarshal_def relative_body_def)
  have b: "currentJob_secrets (recording_worker (Some [deploy_key])) = Some [deploy_key]"
    by (simp add: recording_worker_def)
  have c: "find (\<lambda>k. Name k = ''cds.key.'' @ vars_key \<lparr>vars_key = ''deploy'', ReadAll_Body = Inr relative_body\<rparr> @ ''.priv'')
             [deploy_key] = Some deploy_key"
    by (simp add: deploy_key_def)
  have d: "map_index [''file'' \<mapsto> ''relative/path''] ''file'' \<noteq> []"
    by (simp add: map_index_def)
  have e: "\<not> PathIsAbs (sample_sdk\<lparr>ErrUnknownError := \<lparr>Status = 503, Message = ''unknown''\<rparr>\<rparr>)
               (map_index [''file'' \<mapsto> ''relative/path''] ''file'')"
    by (simp add: map_index_def sample_sdk_def)
  show ?thesis
    using relative_path_status_is_unknown_error [OF a b c d e, of "[]"]
    by (simp add: sample_sdk_def)
qed

text \<open>
  Claim C8. A relative, non-empty destination path is rejected before any call to the
  install capability: \<open>keyInstall\<close> returns the error and the worker's state as it
  was, whatever the runtime, and so does the handler. With an absolute destination
  path, \<open>keyInstall\<close> is the capability's \<open>InstallKeyTo\<close> on the key and exactly that
  path, and the handler leaves the worker in the state that call produces.
\<close>

theorem relative_path_rejected_before_install:
  "(filename \<noteq> [] \<and> \<not> PathIsAbs sdk filename \<longrightarrow>
      keyInstall sdk wk filename key s
        = (Inl (PlainError ''unsupported relative path''), s)) \<and>
   (filename \<noteq> [] \<and> PathIsAbs sdk filename \<longrightarrow>
      keyInstall sdk wk filename key s = InstallKeyTo wk key filename s) \<and>
   (parsed Unmarshal r mapBody \<and> map_index mapBody ''file'' \<noteq> [] \<and>
    \<not> PathIsAbs sdk (map_index mapBody ''file'') \<longrightarrow>
      snd (keyInstallHandler sdk Unmarshal cw r s) = s) \<and>
   (parsed Unmarshal r mapBody \<and> currentJob_secrets cw = Some secrets \<and>
    find (\<lambda>k. Name k = ''cds.key.'' @ vars_key r @ ''.priv'') secrets = Some key \<and>
    map_index mapBody ''file'' \<noteq> [] \<and> PathIsAbs sdk (map_index mapBody ''file'') \<longrightarrow>
      snd (keyInstallHandler sdk Unmarshal cw r s)
        = snd (InstallKeyTo cw key (map_index mapBody ''file'') s))"
proof (intro conjI impI)
  assume "filename \<noteq> [] \<and> \<not> PathIsAbs sdk filename"
  then show "keyInstall sdk wk filename key s
               = (Inl (PlainError ''unsupported relative path''), s)"
    by (simp add: keyInstall_relative)
next
  assume "filename \<noteq> [] \<and> PathIsAbs sdk filename"
  then show "keyInstall sdk wk filename key s = InstallKeyTo wk key filename s"
    by (simp add: keyInstall_absolute)
next
  assume "parsed Unmarshal r mapBody \<and> map_index mapBody ''file'' \<noteq> [] \<and>
    \<not> PathIsAbs sdk (map_index mapBody ''file'')"
  then show "snd (keyInstallHandler sdk Unmarshal cw r s) = s"
    using handler_relative_state [of Unmarshal r mapBody sdk cw s] by simp
next
  assume "parsed Unmarshal r mapBody \<and> currentJob_secrets cw = Some secrets \<and>
    find (\<lambda>k. Name k = ''cds.key.'' @ vars_key r @ ''.priv'') secrets = Some key \<and>
    map_index mapBody ''file'' \<noteq> [] \<and> PathIsAbs sdk (map_index mapBody ''file'')"
  then show "snd (keyInstallHandler sdk Unmarshal cw r s)
               = snd (InstallKeyTo cw key (map_index mapBody ''file'') s)"
    using handler_absolute_state [of Unmarshal r mapBody cw secrets key sdk s] by simp
qed

theorem relative_path_rejected_before_install_witness:
  "keyInstall sample_sdk (recording_worker None) ''relative/path'' deploy_key []
     = (Inl (PlainError ''unsupported relative path''), []) \<and>
   keyInstall sample_sdk (recording_worker None) ''/abs/path'' deploy_key []
     = (Inr \<lparr>PKey = ''/abs/path''\<rparr>, [CalledInstallKeyTo deploy_key ''/abs/path'']) \<and>
   snd (keyInstallHandler sample_sdk sample_Unmarshal (recording_worker (Some [deploy_key]))
          \<lparr>vars_key = ''deploy'', ReadAll_Body = Inr relative_body\<rparr> []) = [] \<and>
   snd (keyInstallHandler sample_sdk sample_Unmarshal (recording_worker (Some [deploy_key]))
          \<lparr>vars_key = ''deploy'', ReadAll_Body = Inr absolute_body\<rparr> [])
     = [CalledInstallKeyTo deploy_key ''/abs/path'']"
proof -
  let ?rel = "\<lparr>vars_key = ''deploy'', ReadAll_Body = Inr relative_body\<rparr>"
  let ?abs = "\<lparr>vars_key = ''deploy'', ReadAll_Body = Inr absolute_body\<rparr>"
  have a: "parsed sample_Unmarshal ?rel [''file'' \<mapsto> ''relative/path'']"
    by (simp add: parsed_def sample_Unmarshal_def relative_body_def)
  have b: "parsed sample_Unmarshal ?abs [''file'' \<mapsto> ''/abs/path'']"
    by (simp add: parsed_def sample_Unmarshal_def relative_body_def absolute_body_def)
  have c: "currentJob_secrets (recording_worker (Some [deploy_key])) = Some [deploy_key]"
    by (simp add: recording_worker_def)
  have d: "find (\<lambda>k. Name k = ''cds.key.'' @ vars_key ?abs @ ''.priv'') [deploy_key]
             = Some deploy_key"
    by (simp add: deploy_key_def)
  have e: "\<not> PathIsAbs sample_sdk ''relative/path''" "PathIsAbs sample_sdk ''/abs/path''"
    by (simp_all add: sample_sdk_def)
  have f: "InstallKeyTo (recording_worker secrets) deploy_key ''/abs/path'' []
             = (Inr \<lparr>PKey = ''/abs/path''\<rparr>, [CalledInstallKeyTo deploy_key ''/abs/path''])"
    for secrets
    by (simp add: recording_worker_def)
  show ?thesis
    using relative_path_rejected_before_install
      [where sdk = sample_sdk and filename = "''relative/path''" and key = deploy_key
         and wk = "recording_worker None" and s = "[]" and Unmarshal = sample_Unmarshal
         and r = ?rel and mapBody = "[''file'' \<mapsto> ''relative/path'']"
         and cw = "recording_worker (Some [deploy_key])"]
      relative_path_rejected_before_install
      [where sdk = sample_sdk and filename = "''/abs/path''" and key = deploy_key
         and wk = "recording_worker None" and s = "[]" and Unmarshal = sample_Unmarshal
         and r = ?abs and mapBody = "[''file'' \<mapsto> ''/abs/path'']"
         and cw = "recording_worker (Some [deploy_key])" and secrets = "[deploy_key]"]
      a b c d e f
    by (simp add: map_index_def)
qed

text \<open>
  Claim C9. On an executor that does not fail and a table whose rows are distinct,
  adding a pair twice succeeds both times, the second add changes nothing, and the
  table then holds exactly one row for the pair.
\<close>

theorem AddOnWorkflow_idempotent:
  assumes "exec_failure db = None"
    and "distinct (workflow_project_integration db)"
  shows "\<exists>db1. AddOnWorkflow sdk db w p = Inr db1 \<and>
               AddOnWorkflow sdk db1 w p = Inr db1 \<and>
               count_list (workflow_project_integration db1) (w, p) = 1 \<and>
               distinct (workflow_project_integration db1)"
proof -
  define db1 where
    "db1 = db\<lparr>workflow_project_integration :=
                run_statement (InsertLinkOnConflictDoNothing w p)
                  (workflow_project_integration db)\<rparr>"
  have first: "AddOnWorkflow sdk db w p = Inr db1"
    using assms(1) by (simp add: AddOnWorkflow_def Exec_def db1_def)
  have "exec_failure db1 = None"
    using assms(1) by (simp add: db1_def)
  then have second: "AddOnWorkflow sdk db1 w p = Inr db1"
    by (simp add: AddOnWorkflow_def Exec_def) (simp add: db1_def)
  have one: "count_list (workflow_project_integration db1) (w, p) = 1"
    using run_insert_count [OF assms(2)] by (simp add: db1_def)
  have "distinct (workflow_project_integration db1)"
    using run_insert_distinct [OF assms(2)] by (simp add: db1_def)
  with first second one show ?thesis by blast
qed

theorem AddOnWorkflow_idempotent_witness:
  "AddOnWorkflow sample_sdk \<lparr>workflow_project_integration = [(4, 1)], exec_failure = None\<rparr> 5 1
     = Inr \<lparr>workflow_project_integration = [(4, 1), (5, 1)], exec_failure = None\<rparr> \<and>
   AddOnWorkflow sample_sdk \<lparr>workflow_project_integration = [(4, 1), (5, 1)], exec_failure = None\<rparr> 5 1
     = Inr \<lparr>workflow_project_integration = [(4, 1), (5, 1)], exec_failure = None\<rparr> \<and>
   count_list [(4, 1), (5, 1 :: int64)] (5 :: int64, 1) = 1"
proof -
  let ?db = "\<lparr>workflow_project_integration = [(4, 1)], exec_failure = None\<rparr>"
  have a: "exec_failure ?db = None" by simp
  have b: "distinct (workflow_project_integration ?db)" by simp
  have c: "AddOnWorkflow sample_sdk ?db 5 1
             = Inr \<lparr>workflow_project_integration = [(4, 1), (5, 1)], exec_failure = None\<rparr>"
    by (simp add: AddOnWorkflow_def Exec_def)
  show ?thesis
    using AddOnWorkflow_idempotent [OF a b, of sample_sdk 5 1] c
    by auto
qed

text \<open>
  Claim C10. An empty destination, whether the body has no field \<open>file\<close> or gives it
  the empty string, is no destination: \<open>keyInstall\<close> is the capability's default
  \<open>InstallKey\<close>, for every \<open>sdk\<close>, so the path predicate is never consulted, and a
  request that reaches the installation is answered 200 with the capability's response.
\<close>

theorem empty_path_installs_to_default:
  "keyInstall sdk wk [] key s = InstallKey wk key s \<and>
   (mapBody ''file'' = None \<or> mapBody ''file'' = Some [] \<longrightarrow>
      keyInstall sdk wk (map_index mapBody ''file'') key s = InstallKey wk key s) \<and>
   (parsed Unmarshal r mapBody \<and> (mapBody ''file'' = None \<or> mapBody ''file'' = Some []) \<and>
    currentJob_secrets cw = Some secrets \<and>
    find (\<lambda>k. Name k = ''cds.key.'' @ vars_key r @ ''.priv'') secrets = Some key \<and>
    InstallKey cw key s = (Inr resp, s1) \<longrightarrow>
      keyInstallHandler sdk Unmarshal cw r s
        = (\<lparr>status_code = 200, data = KeyData resp\<rparr>, s1))"
proof (intro conjI impI)
  show "keyInstall sdk wk [] key s = InstallKey wk key s"
    by (simp add: keyInstall_def)
next
  assume "mapBody ''file'' = None \<or> mapBody ''file'' = Some []"
  then show "keyInstall sdk wk (map_index mapBody ''file'') key s = InstallKey wk key s"
    by (auto simp: keyInstall_def map_index_def)
next
  assume h: "parsed Unmarshal r mapBody \<and>
    (mapBody ''file'' = None \<or> mapBody ''file'' = Some []) \<and>
    currentJob_secrets cw = Some secrets \<and>
    find (\<lambda>k. Name k = ''cds.key.'' @ vars_key r @ ''.priv'') secrets = Some key \<and>
    InstallKey cw key s = (Inr resp, s1)"
  then obtain body where
    body: "ReadAll_Body r = Inr body"
      "(if length body > 0 then Unmarshal body else Inr Map.empty) = Inr mapBody"
    using parsed_body by blast
  from h have nofile: "map_index mapBody ''file'' = []"
    by (auto simp: map_index_def)
  show "keyInstallHandler sdk Unmarshal cw r s
          = (\<lparr>status_code = 200, data = KeyData resp\<rparr>, s1)"
    using body nofile h
    by (simp add: keyInstallHandler_def keyInstall_def Let_def writeJSON_def
          del: length_greater_0_conv)
qed

theorem empty_path_installs_to_default_witness:
  "\<not> PathIsAbs sample_sdk [] \<and>
   keyInstall sample_sdk (recording_worker None) (map_index [''file'' \<mapsto> []] ''file'') deploy_key []
     = (Inr \<lparr>PKey = ''/default/key''\<rparr>, [CalledInstallKey deploy_key]) \<and>
   keyInstallHandler sample_sdk sample_Unmarshal (recording_worker (Some [deploy_key]))
      \<lparr>vars_key = ''deploy'', ReadAll_Body = Inr empty_path_body\<rparr> []
     = (\<lparr>status_code = 200, data = KeyData \<lparr>PKey = ''/default/key''\<rparr>\<rparr>,
        [CalledInstallKey deploy_key]) \<and>
   keyInstallHandler sample_sdk sample_Unmarshal (recording_worker (Some [deploy_key]))
      \<lparr>vars_key = ''deploy'', ReadAll_Body = Inr []\<rparr> []
     = (\<lparr>status_code = 200, data = KeyData \<lparr>PKey = ''/default/key''\<rparr>\<rparr>,
        [CalledInstallKey deploy_key])"
proof -
  let ?r1 = "\<lparr>vars_key = ''deploy'', ReadAll_Body = Inr empty_path_body\<rparr>"
  let ?r2 = "\<lparr>vars_key = ''deploy'', ReadAll_Body = Inr []\<rparr>"
  let ?cw = "recording_worker (Some [deploy_key])"
  have a: "parsed sample_Unmarshal ?r1 [''file'' \<mapsto> []]"
    by (simp add: parsed_def sample_Unmarshal_def relative_body_def absolute_body_def
          empty_path_body_def)
  have b: "parsed sample_Unmarshal ?r2 Map.empty"
    by (simp add: parsed_def)
  have c: "currentJob_secrets ?cw = Some [deploy_key]"
    by (simp add: recording_worker_def)
  have d: "find (\<lambda>k. Name k = ''cds.key.'' @ ''deploy'' @ ''.priv'') [deploy_key]
             = Some deploy_key"
    by (simp add: deploy_key_def)
  have e: "InstallKey (recording_worker secrets) deploy_key []
             = (Inr \<lparr>PKey = ''/default/key''\<rparr>, [CalledInstallKey deploy_key])" for secrets
    by (simp add: recording_worker_def)
  have f: "\<not> PathIsAbs sample_sdk []"
    by (simp add: sample_sdk_def)
  show ?thesis
    using empty_path_installs_to_default
      [where sdk = sample_sdk and wk = "recording_worker None" and key = deploy_key
         and s = "[]" and mapBody = "[''file'' \<mapsto> []]" and Unmarshal = sample_Unmarshal
         and r = ?r1 and cw = ?cw and secrets = "[deploy_key]"
         and resp = "\<lparr>PKey = ''/default/key''\<rparr>" and ?s1.0 = "[CalledInstallKey deploy_key]"]
      empty_path_installs_to_default
      [where sdk = sample_sdk and wk = "recording_worker None" and key = deploy_key
         and s = "[]" and mapBody = "Map.empty" and Unmarshal = sample_Unmarshal
         and r = ?r2 and cw = ?cw and secrets = "[deploy_key]"
         and resp = "\<lparr>PKey = ''/default/key''\<rparr>" and ?s1.0 = "[CalledInstallKey deploy_key]"]
      a b c d e f
    by simp
qed

end
